theory Spec2Isabelle
  imports Main "HOL-Library.Word" "HOL-Library.Sublist"
begin

section \<open>Local database provider: data model\<close>

text \<open>
  The embedded source is \<^verbatim>\<open>controllers/cloud.redhat.com/providers/localdb.go\<close>.
  Go structs are records, with one field per struct field that the provider reads or
  writes; a Go pointer field is an \<open>option\<close>, a Go map is a partial function, a Go slice
  is a list, \<^verbatim>\<open>int32\<close> is a 32-bit word (read as signed by \<open>sint\<close>).
\<close>

type_synonym int32 = "32 word"

type_synonym labels = "string \<rightharpoonup> string"

text \<open>\<^verbatim>\<open>types.NamespacedName\<close>\<close>

record NamespacedName =
  nn_Name :: string
  nn_Namespace :: string

text \<open>
  \<^verbatim>\<open>crd.ClowdApp\<close>: the fields the provider reads, \<^verbatim>\<open>Name\<close>, \<^verbatim>\<open>Namespace\<close>, the label map
  behind \<^verbatim>\<open>GetLabels\<close> and \<^verbatim>\<open>Spec.Database.Name\<close>.
\<close>

record ClowdApp =
  app_Name :: string
  app_Namespace :: string
  app_Labels :: labels
  app_Spec_Database_Name :: string

text \<open>\<^verbatim>\<open>config.DatabaseConfig\<close> and the part of \<^verbatim>\<open>config.AppConfig\<close> that \<^verbatim>\<open>Configure\<close> writes.\<close>

record DatabaseConfig =
  cfg_Hostname :: string
  cfg_Port :: int
  cfg_Username :: string
  cfg_Password :: string
  cfg_PgPass :: string
  cfg_Name :: string

record AppConfig =
  ac_Database :: "DatabaseConfig option"

text \<open>
  \<^verbatim>\<open>Provider\<close> and \<^verbatim>\<open>localDbProvider\<close>, which embeds it. Of the provider the code reads
  \<^verbatim>\<open>Env.Spec.Database.Image\<close>, the client and the context; client and context are the
  cluster state below. \<^verbatim>\<open>Config\<close> is a pointer, \<open>None\<close> is \<^verbatim>\<open>nil\<close>.
\<close>

record Provider =
  Env_Spec_Database_Image :: string

record localDbProvider = Provider +
  Config :: "DatabaseConfig option"

subsection \<open>Kubernetes objects\<close>

record ObjectMeta =
  om_Name :: string
  om_Namespace :: string
  om_Labels :: labels

record PersistentVolumeClaimVolumeSource =
  pvs_ClaimName :: string

record VolumeSource =
  vs_PersistentVolumeClaim :: "PersistentVolumeClaimVolumeSource option"

record Volume =
  vol_Name :: string
  vol_VolumeSource :: VolumeSource

record LocalObjectReference =
  lor_Name :: string

record EnvVar =
  ev_Name :: string
  ev_Value :: string

record ContainerPort =
  cp_Name :: string
  cp_ContainerPort :: int32

record ExecAction =
  ea_Command :: "string list"

record Handler =
  h_Exec :: "ExecAction option"

record Probe =
  pr_Handler :: Handler
  pr_InitialDelaySeconds :: int32
  pr_TimeoutSeconds :: int32

record VolumeMount =
  vm_Name :: string
  vm_MountPath :: string

record Container =
  c_Name :: string
  c_Image :: string
  c_Env :: "EnvVar list"
  c_LivenessProbe :: "Probe option"
  c_ReadinessProbe :: "Probe option"
  c_Ports :: "ContainerPort list"
  c_VolumeMounts :: "VolumeMount list"

record PodSpec =
  ps_Volumes :: "Volume list"
  ps_ImagePullSecrets :: "LocalObjectReference list"
  ps_Containers :: "Container list"

record PodTemplateSpec =
  pt_ObjectMeta :: ObjectMeta
  pt_Spec :: PodSpec

record LabelSelector =
  ls_MatchLabels :: labels

record DeploymentSpec =
  ds_Replicas :: "int32 option"
  ds_Selector :: "LabelSelector option"
  ds_Template :: PodTemplateSpec

record Deployment =
  dd_ObjectMeta :: ObjectMeta
  dd_Spec :: DeploymentSpec

record ServicePort =
  sp_Name :: string
  sp_Port :: int32
  sp_Protocol :: string

record ServiceSpec =
  ss_Selector :: labels
  ss_Ports :: "ServicePort list"

record Service =
  s_ObjectMeta :: ObjectMeta
  s_Spec :: ServiceSpec

datatype PersistentVolumeAccessMode = ReadWriteOnce | ReadOnlyMany | ReadWriteMany

text \<open>
  \<^verbatim>\<open>resource.Quantity\<close> belongs to the Kubernetes API machinery, not to this repository:
  a quantity is kept as the literal handed to \<^verbatim>\<open>resource.MustParse\<close>.
\<close>

datatype Quantity = MustParse string

text \<open>\<^verbatim>\<open>core.ResourceStorage\<close>, a \<^verbatim>\<open>core.ResourceName\<close> (a string type).\<close>

definition ResourceStorage :: string where
  "ResourceStorage = ''storage''"

record ResourceRequirements =
  rr_Requests :: "string \<rightharpoonup> Quantity"

record PersistentVolumeClaimSpec =
  pcs_AccessModes :: "PersistentVolumeAccessMode list"
  pcs_Resources :: ResourceRequirements

record PersistentVolumeClaim =
  pvc_ObjectMeta :: ObjectMeta
  pvc_Spec :: PersistentVolumeClaimSpec

subsection \<open>Zero values\<close>

text \<open>What \<^verbatim>\<open>apps.Deployment{}\<close>, \<^verbatim>\<open>core.Service{}\<close> and \<^verbatim>\<open>core.PersistentVolumeClaim{}\<close> hold.\<close>

definition zero_ObjectMeta :: ObjectMeta where
  "zero_ObjectMeta = \<lparr>om_Name = [], om_Namespace = [], om_Labels = Map.empty\<rparr>"

definition zero_Deployment :: Deployment where
  "zero_Deployment =
     \<lparr>dd_ObjectMeta = zero_ObjectMeta,
      dd_Spec = \<lparr>ds_Replicas = None, ds_Selector = None,
                 ds_Template = \<lparr>pt_ObjectMeta = zero_ObjectMeta,
                                 pt_Spec = \<lparr>ps_Volumes = [], ps_ImagePullSecrets = [],
                                            ps_Containers = []\<rparr>\<rparr>\<rparr>\<rparr>"

definition zero_Service :: Service where
  "zero_Service =
     \<lparr>s_ObjectMeta = zero_ObjectMeta, s_Spec = \<lparr>ss_Selector = Map.empty, ss_Ports = []\<rparr>\<rparr>"

definition zero_PersistentVolumeClaim :: PersistentVolumeClaim where
  "zero_PersistentVolumeClaim =
     \<lparr>pvc_ObjectMeta = zero_ObjectMeta,
      pvc_Spec = \<lparr>pcs_AccessModes = [], pcs_Resources = \<lparr>rr_Requests = Map.empty\<rparr>\<rparr>\<rparr>"

section \<open>Collaborators of the provider\<close>

subsection \<open>Owner labels and metadata stamping\<close>

text \<open>
  Modelled from the spec: \<^verbatim>\<open>ClowdApp.GetLabels\<close> is not part of the embedded file. The
  specification describes the owner's labels as a label set carried by the descriptor and
  says that the source mutates the descriptor's label mapping in place when it injects
  \<^verbatim>\<open>service=db\<close>: the map that \<^verbatim>\<open>GetLabels\<close> hands out is the descriptor's own map, not a
  copy.
\<close>

definition GetLabels :: "ClowdApp \<Rightarrow> labels" where
  "GetLabels pp = app_Labels pp"

text \<open>
  The Go statement \<^verbatim>\<open>labels[k] = v\<close> on the map returned by \<^verbatim>\<open>pp.GetLabels()\<close>. Go maps
  are references, so the write lands in the descriptor that owns the map; the descriptor is
  returned updated.
\<close>

definition labels_assign :: "ClowdApp \<Rightarrow> string \<Rightarrow> string \<Rightarrow> ClowdApp" where
  "labels_assign pp k v = pp\<lparr>app_Labels := (app_Labels pp)(k \<mapsto> v)\<rparr>"

text \<open>The options \<^verbatim>\<open>crd.Name\<close>, \<^verbatim>\<open>crd.Namespace\<close> and \<^verbatim>\<open>crd.Labels\<close> of the metadata stamper.\<close>

datatype omfunc = Name string | Namespace string | Labels labels

fun apply_omfunc :: "omfunc \<Rightarrow> ObjectMeta \<Rightarrow> ObjectMeta" where
  "apply_omfunc (Name n) om = om\<lparr>om_Name := n\<rparr>"
| "apply_omfunc (Namespace ns) om = om\<lparr>om_Namespace := ns\<rparr>"
| "apply_omfunc (Labels l) om = om\<lparr>om_Labels := l\<rparr>"

text \<open>
  Modelled from the spec: \<^verbatim>\<open>ClowdApp.SetObjectMeta\<close> is not part of the embedded file. The
  specification gives it as \<^verbatim>\<open>stamp(target, name, namespace?, labels)\<close>, setting the
  identifying metadata of the target, and places every provisioned resource in the owning
  application's namespace: the target gets the owner's namespace, then the supplied options
  are applied in order.
\<close>

definition SetObjectMeta :: "ClowdApp \<Rightarrow> ObjectMeta \<Rightarrow> omfunc list \<Rightarrow> ObjectMeta" where
  "SetObjectMeta pp om opts = fold apply_omfunc opts (om\<lparr>om_Namespace := app_Namespace pp\<rparr>)"

subsection \<open>The resource store\<close>

datatype kind = Workload | Endpoint | Storage

text \<open>
  Go \<^verbatim>\<open>error\<close> values: the store's not-found error, any other error of a store round-trip,
  and an error made by \<^verbatim>\<open>fmt.Errorf\<close> with its message.
\<close>

datatype error = NotFound | StoreError string | Errorf string

text \<open>What the provider does to its collaborators, in the order it does it.\<close>

datatype event =
    EvGet kind NamespacedName
  | EvApply kind NamespacedName bool
  | EvRand nat

text \<open>
  The cluster behind \<^verbatim>\<open>db.Client\<close>: the stored objects of the three kinds, the error (if
  any) that a fetch or an apply of each kind runs into, the stream of draws behind the random
  string generator with the number of draws consumed, and the log of events. A run of
  \<^verbatim>\<open>CreateDatabase\<close> fetches and applies each kind at most once, so one fault per kind and
  operation covers every way a run can fail.
\<close>

record cluster =
  deployments :: "NamespacedName \<rightharpoonup> Deployment"
  services :: "NamespacedName \<rightharpoonup> Service"
  pvcs :: "NamespacedName \<rightharpoonup> PersistentVolumeClaim"
  get_fault :: "kind \<Rightarrow> error option"
  apply_fault :: "kind \<Rightarrow> error option"
  rand_src :: "nat \<Rightarrow> nat"
  rand_pos :: nat
  trace :: "event list"

fun IsNotFound :: "error \<Rightarrow> bool" where
  "IsNotFound NotFound = True"
| "IsNotFound (StoreError m) = False"
| "IsNotFound (Errorf m) = False"

text \<open>
  Modelled from the spec: \<^verbatim>\<open>Client.Get\<close> is the store's fetch,
  \<^verbatim>\<open>Store.fetch(identity, kind) -> (resource, found|notfound|error)\<close>. A fetch that fails
  returns its error and leaves the target as it was; a fetch of an absent resource returns
  the not-found error; a fetch of a stored resource fills the target with it.
\<close>

definition client_Get ::
  "kind \<Rightarrow> (NamespacedName \<rightharpoonup> 'a) \<Rightarrow> cluster \<Rightarrow> NamespacedName \<Rightarrow> 'a \<Rightarrow> (error option \<times> 'a) \<times> cluster" where
  "client_Get k tbl w nn obj =
     (let w' = w\<lparr>trace := trace w @ [EvGet k nn]\<rparr>
      in case get_fault w k of
           Some e \<Rightarrow> ((Some e, obj), w')
         | None \<Rightarrow> (case tbl nn of
                       None \<Rightarrow> ((Some NotFound, obj), w')
                     | Some x \<Rightarrow> ((None, x), w')))"

text \<open>
  Modelled from the spec: \<^verbatim>\<open>utils.UpdateOrErr\<close> is the existence resolver. A fetch that
  succeeded gives a handle that updates in place (\<open>True\<close>); a fetch that failed with not-found
  gives a handle that creates (\<open>False\<close>); any other error is propagated.
\<close>

definition UpdateOrErr :: "error option \<Rightarrow> bool \<times> error option" where
  "UpdateOrErr err =
     (case err of
        None \<Rightarrow> (True, None)
      | Some e \<Rightarrow> if IsNotFound e then (False, None) else (False, Some e))"

definition key_of :: "ObjectMeta \<Rightarrow> NamespacedName" where
  "key_of om = \<lparr>nn_Name = om_Name om, nn_Namespace = om_Namespace om\<rparr>"

text \<open>
  Modelled from the spec: \<^verbatim>\<open>Updater.Apply\<close> is the store's apply,
  \<^verbatim>\<open>Store.apply(handle, spec) -> (appliedResource, error)\<close>, a create when the handle says
  absent and an update in place otherwise. A failed apply leaves the store as it was; a
  successful one stores the object under the name and namespace of its metadata.
\<close>

definition Apply_Deployment :: "bool \<Rightarrow> cluster \<Rightarrow> Deployment \<Rightarrow> error option \<times> cluster" where
  "Apply_Deployment upd w dd =
     (let nn = key_of (dd_ObjectMeta dd);
          w' = w\<lparr>trace := trace w @ [EvApply Workload nn upd]\<rparr>
      in case apply_fault w Workload of
           Some e \<Rightarrow> (Some e, w')
         | None \<Rightarrow> (None, w'\<lparr>deployments := (deployments w)(nn \<mapsto> dd)\<rparr>))"

definition Apply_Service :: "bool \<Rightarrow> cluster \<Rightarrow> Service \<Rightarrow> error option \<times> cluster" where
  "Apply_Service upd w s =
     (let nn = key_of (s_ObjectMeta s);
          w' = w\<lparr>trace := trace w @ [EvApply Endpoint nn upd]\<rparr>
      in case apply_fault w Endpoint of
           Some e \<Rightarrow> (Some e, w')
         | None \<Rightarrow> (None, w'\<lparr>services := (services w)(nn \<mapsto> s)\<rparr>))"

definition Apply_PersistentVolumeClaim ::
  "bool \<Rightarrow> cluster \<Rightarrow> PersistentVolumeClaim \<Rightarrow> error option \<times> cluster" where
  "Apply_PersistentVolumeClaim upd w pvc =
     (let nn = key_of (pvc_ObjectMeta pvc);
          w' = w\<lparr>trace := trace w @ [EvApply Storage nn upd]\<rparr>
      in case apply_fault w Storage of
           Some e \<Rightarrow> (Some e, w')
         | None \<Rightarrow> (None, w'\<lparr>pvcs := (pvcs w)(nn \<mapsto> pvc)\<rparr>))"

subsection \<open>The credential generator\<close>

definition rCharSet :: string where
  "rCharSet = ''abcdefghijklmnopqrstuvwxyzABCDEFGHIJKLMNOPQRSTUVWXYZ0123456789''"

text \<open>
  Modelled from the spec: \<^verbatim>\<open>utils.RandString\<close> is the credential generator,
  \<^verbatim>\<open>generate(length) -> string\<close>, a string of the requested length drawn from a fixed
  alphanumeric alphabet. Each character takes the next draw of the cluster's random stream.
\<close>

definition RandString :: "nat \<Rightarrow> cluster \<Rightarrow> string \<times> cluster" where
  "RandString n w =
     (map (\<lambda>i. rCharSet ! (rand_src w (rand_pos w + i) mod length rCharSet)) [0..<n],
      w\<lparr>rand_pos := rand_pos w + n, trace := trace w @ [EvRand n]\<rparr>)"

section \<open>The resource builders\<close>

text \<open>
  Each builder fills its target in place and returns nothing; the model returns the
  descriptor (whose label map the builder writes) and the filled target.
\<close>

text \<open>\<^verbatim>\<open>utils.Int32\<close>: a pointer to the given value.\<close>

definition Int32 :: "int32 \<Rightarrow> int32 option" where
  "Int32 n = Some n"

definition makeLocalDB ::
  "Deployment \<Rightarrow> NamespacedName \<Rightarrow> ClowdApp \<Rightarrow> DatabaseConfig \<Rightarrow> string \<Rightarrow> ClowdApp \<times> Deployment" where
  "makeLocalDB dd nn pp cfg img =
     (let pp = labels_assign pp ''service'' ''db'';
          labels = GetLabels pp;
          meta = SetObjectMeta pp (dd_ObjectMeta dd) [Name (nn_Name nn), Labels labels];
          volumes = [\<lparr>vol_Name = nn_Name nn,
                      vol_VolumeSource = \<lparr>vs_PersistentVolumeClaim =
                         Some \<lparr>pvs_ClaimName = nn_Name nn\<rparr>\<rparr>\<rparr>];
          pullSecrets = [\<lparr>lor_Name = ''quay-cloudservices-pull''\<rparr>];
          envVars = [\<lparr>ev_Name = ''POSTGRESQL_USER'', ev_Value = cfg_Username cfg\<rparr>,
                     \<lparr>ev_Name = ''POSTGRESQL_PASSWORD'', ev_Value = cfg_Password cfg\<rparr>,
                     \<lparr>ev_Name = ''PGPASSWORD'', ev_Value = cfg_PgPass cfg\<rparr>,
                     \<lparr>ev_Name = ''POSTGRESQL_DATABASE'', ev_Value = app_Spec_Database_Name pp\<rparr>];
          ports = [\<lparr>cp_Name = ''database'', cp_ContainerPort = 5432\<rparr>];
          probeHandler = \<lparr>h_Exec = Some \<lparr>ea_Command =
             [''psql'', ''-U'', ''$(POSTGRESQL_USER)'', ''-d'', ''$(POSTGRESQL_DATABASE)'',
              ''-c'', ''SELECT 1'']\<rparr>\<rparr>;
          livenessProbe = \<lparr>pr_Handler = probeHandler, pr_InitialDelaySeconds = 15,
                           pr_TimeoutSeconds = 2\<rparr>;
          readinessProbe = \<lparr>pr_Handler = probeHandler, pr_InitialDelaySeconds = 45,
                            pr_TimeoutSeconds = 2\<rparr>;
          c = \<lparr>c_Name = nn_Name nn, c_Image = img, c_Env = envVars,
               c_LivenessProbe = Some livenessProbe, c_ReadinessProbe = Some readinessProbe,
               c_Ports = ports,
               c_VolumeMounts = [\<lparr>vm_Name = nn_Name nn, vm_MountPath = ''/var/lib/pgsql/data''\<rparr>]\<rparr>;
          tmpl = ds_Template (dd_Spec dd);
          tmpl = tmpl\<lparr>pt_ObjectMeta := (pt_ObjectMeta tmpl)\<lparr>om_Labels := labels\<rparr>,
                      pt_Spec := (pt_Spec tmpl)\<lparr>ps_Volumes := volumes,
                                                ps_ImagePullSecrets := pullSecrets,
                                                ps_Containers := [c]\<rparr>\<rparr>
      in (pp, dd\<lparr>dd_ObjectMeta := meta,
                 dd_Spec := (dd_Spec dd)\<lparr>ds_Replicas := Int32 1,
                                         ds_Selector := Some \<lparr>ls_MatchLabels = labels\<rparr>,
                                         ds_Template := tmpl\<rparr>\<rparr>))"

definition makeLocalService :: "Service \<Rightarrow> NamespacedName \<Rightarrow> ClowdApp \<Rightarrow> ClowdApp \<times> Service" where
  "makeLocalService s nn pp =
     (let servicePorts = [\<lparr>sp_Name = ''database'', sp_Port = 5432, sp_Protocol = ''TCP''\<rparr>];
          pp = labels_assign pp ''service'' ''db'';
          labels = GetLabels pp;
          meta = SetObjectMeta pp (s_ObjectMeta s)
                   [Name (nn_Name nn), Namespace (nn_Namespace nn), Labels labels]
      in (pp, s\<lparr>s_ObjectMeta := meta,
                s_Spec := (s_Spec s)\<lparr>ss_Selector := labels, ss_Ports := servicePorts\<rparr>\<rparr>))"

definition makeLocalPVC ::
  "PersistentVolumeClaim \<Rightarrow> NamespacedName \<Rightarrow> ClowdApp \<Rightarrow> ClowdApp \<times> PersistentVolumeClaim" where
  "makeLocalPVC pvc nn pp =
     (let pp = labels_assign pp ''service'' ''db'';
          labels = GetLabels pp;
          meta = SetObjectMeta pp (pvc_ObjectMeta pvc) [Name (nn_Name nn), Labels labels]
      in (pp, pvc\<lparr>pvc_ObjectMeta := meta,
                  pvc_Spec := (pvc_Spec pvc)\<lparr>
                    pcs_AccessModes := [ReadWriteOnce],
                    pcs_Resources := \<lparr>rr_Requests = [ResourceStorage \<mapsto> MustParse ''1Gi'']\<rparr>\<rparr>\<rparr>))"

section \<open>The provider\<close>

definition Configure :: "localDbProvider \<Rightarrow> AppConfig \<Rightarrow> AppConfig" where
  "Configure db c = c\<lparr>ac_Database := Config db\<rparr>"

definition NewLocalDBProvider :: "Provider \<Rightarrow> localDbProvider \<times> error option" where
  "NewLocalDBProvider p =
     (\<lparr>Env_Spec_Database_Image = Env_Spec_Database_Image p, Config = None\<rparr>, None)"

text \<open>The identity \<^verbatim>\<open>nn\<close> that \<^verbatim>\<open>CreateDatabase\<close> derives first: \<^verbatim>\<open>fmt.Sprintf("%v-db", app.Name)\<close>
  and the namespace of the application.\<close>

definition derive_nn :: "ClowdApp \<Rightarrow> NamespacedName" where
  "derive_nn app = \<lparr>nn_Name = app_Name app @ ''-db'', nn_Namespace = app_Namespace app\<rparr>"

text \<open>
  \<^verbatim>\<open>CreateDatabase\<close> has a pointer receiver and a pointer argument and talks to the cluster:
  the model returns the error (\<open>None\<close> is \<^verbatim>\<open>nil\<close>) together with the provider, the
  application descriptor and the cluster as the run leaves them.
\<close>

definition CreateDatabase ::
  "localDbProvider \<Rightarrow> ClowdApp \<Rightarrow> cluster \<Rightarrow> error option \<times> localDbProvider \<times> ClowdApp \<times> cluster" where
  "CreateDatabase db app w =
     (let nn = derive_nn app
      in case client_Get Workload (deployments w) w nn zero_Deployment of ((gerr, dd), w) \<Rightarrow>
         case UpdateOrErr gerr of (exists, err) \<Rightarrow>
         if err \<noteq> None then (err, db, app, w)
         else if exists then (Some (Errorf ''DB has already been created''), db, app, w)
         else
           case RandString 16 w of (username, w) \<Rightarrow>
           case RandString 16 w of (password, w) \<Rightarrow>
           case RandString 16 w of (pgpass, w) \<Rightarrow>
           let cfg = \<lparr>cfg_Hostname = nn_Name nn @ ''.'' @ nn_Namespace nn @ ''.svc'',
                      cfg_Port = 5432,
                      cfg_Username = username,
                      cfg_Password = password,
                      cfg_PgPass = pgpass,
                      cfg_Name = app_Spec_Database_Name app\<rparr>
           in case makeLocalDB dd nn app cfg (Env_Spec_Database_Image db) of (app, dd) \<Rightarrow>
              case Apply_Deployment exists w dd of (err, w) \<Rightarrow>
              if err \<noteq> None then (err, db, app, w)
              else
                case client_Get Endpoint (services w) w nn zero_Service of ((gerr, s), w) \<Rightarrow>
                case UpdateOrErr gerr of (update, err) \<Rightarrow>
                if err \<noteq> None then (err, db, app, w)
                else
                  case makeLocalService s nn app of (app, s) \<Rightarrow>
                  case Apply_Service update w s of (err, w) \<Rightarrow>
                  if err \<noteq> None then (err, db, app, w)
                  else
                    case client_Get Storage (pvcs w) w nn zero_PersistentVolumeClaim of
                      ((gerr, pvc), w) \<Rightarrow>
                    case UpdateOrErr gerr of (update, err) \<Rightarrow>
                    if err \<noteq> None then (err, db, app, w)
                    else
                      case makeLocalPVC pvc nn app of (app, pvc) \<Rightarrow>
                      case Apply_PersistentVolumeClaim update w pvc of (err, w) \<Rightarrow>
                      if err \<noteq> None then (err, db, app, w)
                      else (None, db, app, w))"

subsection \<open>Reading a run off the event log\<close>

definition new_events :: "cluster \<Rightarrow> cluster \<Rightarrow> event list" where
  "new_events w w' = drop (length (trace w)) (trace w')"

fun rand_calls :: "event list \<Rightarrow> nat list" where
  "rand_calls [] = []"
| "rand_calls (EvRand n # es) = n # rand_calls es"
| "rand_calls (e # es) = rand_calls es"

fun applied_kinds :: "event list \<Rightarrow> kind list" where
  "applied_kinds [] = []"
| "applied_kinds (EvApply k nn u # es) = k # applied_kinds es"
| "applied_kinds (e # es) = applied_kinds es"

fun fetched_kinds :: "event list \<Rightarrow> kind list" where
  "fetched_kinds [] = []"
| "fetched_kinds (EvGet k nn # es) = k # fetched_kinds es"
| "fetched_kinds (e # es) = fetched_kinds es"

text \<open>
  The events abstracted to the operation they stand for, and the operations of one complete
  provisioning in source order: fetch the workload, three generator calls of length 16, apply
  the workload, fetch and apply the endpoint, fetch and apply the storage claim.
\<close>

datatype op = OpGet kind | OpApply kind | OpRand nat

fun op_of :: "event \<Rightarrow> op" where
  "op_of (EvGet k nn) = OpGet k"
| "op_of (EvApply k nn u) = OpApply k"
| "op_of (EvRand n) = OpRand n"

definition provisioning_steps :: "op list" where
  "provisioning_steps =
     [OpGet Workload, OpRand 16, OpRand 16, OpRand 16, OpApply Workload,
      OpGet Endpoint, OpApply Endpoint, OpGet Storage, OpApply Storage]"

fun rand_ops :: "op list \<Rightarrow> nat list" where
  "rand_ops [] = []"
| "rand_ops (OpRand n # os) = n # rand_ops os"
| "rand_ops (s # os) = rand_ops os"

fun applied_ops :: "op list \<Rightarrow> kind list" where
  "applied_ops [] = []"
| "applied_ops (OpApply k # os) = k # applied_ops os"
| "applied_ops (s # os) = applied_ops os"

fun fetched_ops :: "op list \<Rightarrow> kind list" where
  "fetched_ops [] = []"
| "fetched_ops (OpGet k # os) = k # fetched_ops os"
| "fetched_ops (s # os) = fetched_ops os"

text \<open>
  What the first fetch of a run returns: the error of \<^verbatim>\<open>db.Client.Get(db.Ctx, nn, &dd)\<close>,
  \<open>None\<close> when the workload was found. The fetch reports the workload absent when that error
  is a not-found error.
\<close>

definition first_fetch :: "cluster \<Rightarrow> ClowdApp \<Rightarrow> error option" where
  "first_fetch w app =
     fst (fst (client_Get Workload (deployments w) w (derive_nn app) zero_Deployment))"

definition reports_absent :: "error option \<Rightarrow> bool" where
  "reports_absent r = (case r of None \<Rightarrow> False | Some e \<Rightarrow> IsNotFound e)"

text \<open>
  The error, if any, that a step of the sequence ends the run with: a fetch fails on any
  error but not-found, an apply fails on any error, the generator never fails.
\<close>

fun step_error :: "cluster \<Rightarrow> op \<Rightarrow> error option" where
  "step_error w (OpGet k) =
     (case get_fault w k of None \<Rightarrow> None | Some e \<Rightarrow> if IsNotFound e then None else Some e)"
| "step_error w (OpApply k) = apply_fault w k"
| "step_error w (OpRand n) = None"

text \<open>
  Fail-fast execution of a list of steps, as the specification words it: steps run in order,
  the first failing step ends the run with its error, and no later step is attempted.
\<close>

fun fail_fast :: "(op \<Rightarrow> error option) \<Rightarrow> op list \<Rightarrow> op list \<times> error option" where
  "fail_fast f [] = ([], None)"
| "fail_fast f (s # ss) =
     (case f s of
        Some e \<Rightarrow> ([s], Some e)
      | None \<Rightarrow> (s # fst (fail_fast f ss), snd (fail_fast f ss)))"

subsection \<open>The blocks of \<open>CreateDatabase\<close>\<close>

text \<open>
  The body of \<^verbatim>\<open>CreateDatabase\<close> after the existence check, cut at its two later fetches:
  lines 50 to 63 (credentials and workload), lines 65 to 76 (endpoint) and lines 78 to 91
  (storage claim). Lemma \<open>CreateDatabase_stages\<close> shows that \<open>CreateDatabase\<close> is the
  existence check followed by these blocks.
\<close>

type_synonym outcome = "error option \<times> localDbProvider \<times> ClowdApp \<times> cluster"

definition storage_stage :: "localDbProvider \<Rightarrow> ClowdApp \<Rightarrow> NamespacedName \<Rightarrow> cluster \<Rightarrow> outcome" where
  "storage_stage db app nn w =
     (case client_Get Storage (pvcs w) w nn zero_PersistentVolumeClaim of
                      ((gerr, pvc), w) \<Rightarrow>
                    case UpdateOrErr gerr of (update, err) \<Rightarrow>
                    if err \<noteq> None then (err, db, app, w)
                    else
                      case makeLocalPVC pvc nn app of (app, pvc) \<Rightarrow>
                      case Apply_PersistentVolumeClaim update w pvc of (err, w) \<Rightarrow>
                      if err \<noteq> None then (err, db, app, w)
                      else (None, db, app, w))"

definition endpoint_stage :: "localDbProvider \<Rightarrow> ClowdApp \<Rightarrow> NamespacedName \<Rightarrow> cluster \<Rightarrow> outcome" where
  "endpoint_stage db app nn w =
     (case client_Get Endpoint (services w) w nn zero_Service of ((gerr, s), w) \<Rightarrow>
                case UpdateOrErr gerr of (update, err) \<Rightarrow>
                if err \<noteq> None then (err, db, app, w)
                else
                  case makeLocalService s nn app of (app, s) \<Rightarrow>
                  case Apply_Service update w s of (err, w) \<Rightarrow>
                  if err \<noteq> None then (err, db, app, w)
                  else storage_stage db app nn w)"

definition workload_stage ::
  "localDbProvider \<Rightarrow> ClowdApp \<Rightarrow> NamespacedName \<Rightarrow> Deployment \<Rightarrow> bool \<Rightarrow> cluster \<Rightarrow> outcome" where
  "workload_stage db app nn dd exists w =
     (case RandString 16 w of (username, w) \<Rightarrow>
           case RandString 16 w of (password, w) \<Rightarrow>
           case RandString 16 w of (pgpass, w) \<Rightarrow>
           let cfg = \<lparr>cfg_Hostname = nn_Name nn @ ''.'' @ nn_Namespace nn @ ''.svc'',
                      cfg_Port = 5432,
                      cfg_Username = username,
                      cfg_Password = password,
                      cfg_PgPass = pgpass,
                      cfg_Name = app_Spec_Database_Name app\<rparr>
           in case makeLocalDB dd nn app cfg (Env_Spec_Database_Image db) of (app, dd) \<Rightarrow>
              case Apply_Deployment exists w dd of (err, w) \<Rightarrow>
              if err \<noteq> None then (err, db, app, w)
              else endpoint_stage db app nn w)"

text \<open>
  A run from cluster \<open>w\<close> over the given steps: the provider is returned as it was, the
  faults of the cluster are untouched, and the events the run adds, with its error, are the
  fail-fast execution of the steps.
\<close>

definition run_ok :: "localDbProvider \<Rightarrow> cluster \<Rightarrow> op list \<Rightarrow> outcome \<Rightarrow> bool" where
  "run_ok db w steps out =
     (case out of (err, db', app', w') \<Rightarrow>
        db' = db \<and> get_fault w' = get_fault w \<and> apply_fault w' = apply_fault w \<and>
        (\<exists>evs. trace w' = trace w @ evs \<and> (map op_of evs, err) = fail_fast (step_error w) steps))"

subsection \<open>Concrete inputs\<close>

text \<open>
  The scenario of the specification: application \<^verbatim>\<open>orders\<close> in namespace \<^verbatim>\<open>prod\<close> with
  database \<^verbatim>\<open>orders_db\<close> and image \<^verbatim>\<open>postgres:13\<close>, a provider fresh from
  \<^verbatim>\<open>NewLocalDBProvider\<close>, and an empty cluster without faults whose random stream draws
  0, 1, 2, ...; then the same cluster with the workload already stored, with a failing
  workload fetch, and with a failing endpoint apply.
\<close>

definition example_app :: ClowdApp where
  "example_app = \<lparr>app_Name = ''orders'', app_Namespace = ''prod'',
                   app_Labels = [''app'' \<mapsto> ''orders''], app_Spec_Database_Name = ''orders_db''\<rparr>"

definition example_db :: localDbProvider where
  "example_db = fst (NewLocalDBProvider \<lparr>Env_Spec_Database_Image = ''postgres:13''\<rparr>)"

definition example_cluster :: cluster where
  "example_cluster = \<lparr>deployments = Map.empty, services = Map.empty, pvcs = Map.empty,
                       get_fault = (\<lambda>k. None), apply_fault = (\<lambda>k. None),
                       rand_src = (\<lambda>i. i), rand_pos = 0, trace = []\<rparr>"

definition example_cfg :: DatabaseConfig where
  "example_cfg = \<lparr>cfg_Hostname = ''orders-db.prod.svc'', cfg_Port = 5432,
                   cfg_Username = ''abcdefghijklmnop'', cfg_Password = ''qrstuvwxyzABCDEF'',
                   cfg_PgPass = ''GHIJKLMNOPQRSTUV'', cfg_Name = ''orders_db''\<rparr>"

definition example_cluster_provisioned :: cluster where
  "example_cluster_provisioned =
     example_cluster\<lparr>deployments := [derive_nn example_app \<mapsto> zero_Deployment]\<rparr>"

definition example_cluster_unavailable :: cluster where
  "example_cluster_unavailable =
     example_cluster\<lparr>get_fault := (\<lambda>k. None)(Workload := Some (StoreError ''unavailable''))\<rparr>"

definition example_cluster_endpoint_fault :: cluster where
  "example_cluster_endpoint_fault =
     example_cluster\<lparr>apply_fault := (\<lambda>k. None)(Endpoint := Some (StoreError ''apply failed''))\<rparr>"

section \<open>Runs of \<open>CreateDatabase\<close>\<close>

subsection \<open>Auxiliary facts\<close>

lemma CreateDatabase_stages:
  "CreateDatabase db app w =
     (let nn = derive_nn app
      in case client_Get Workload (deployments w) w nn zero_Deployment of ((gerr, dd), w) \<Rightarrow>
         case UpdateOrErr gerr of (exists, err) \<Rightarrow>
         if err \<noteq> None then (err, db, app, w)
         else if exists then (Some (Errorf ''DB has already been created''), db, app, w)
         else workload_stage db app nn dd exists w)"
  unfolding CreateDatabase_def workload_stage_def endpoint_stage_def storage_stage_def
  by (rule refl)

lemma step_error_cong:
  "get_fault w' = get_fault w \<Longrightarrow> apply_fault w' = apply_fault w \<Longrightarrow> step_error w' = step_error w"
proof
  fix s assume "get_fault w' = get_fault w" "apply_fault w' = apply_fault w"
  then show "step_error w' s = step_error w s" by (cases s) simp_all
qed

lemma fail_fast_append:
  "snd (fail_fast f xs) = None \<Longrightarrow>
     fail_fast f (xs @ ys) = (fst (fail_fast f xs) @ fst (fail_fast f ys), snd (fail_fast f ys))"
  by (induction xs) (simp_all split: option.splits)

lemma run_ok_compose:
  assumes "get_fault w1 = get_fault w" "apply_fault w1 = apply_fault w"
    and "trace w1 = trace w @ evs1"
    and "fail_fast (step_error w) steps1 = (map op_of evs1, None)"
    and "run_ok db w1 steps2 out"
  shows "run_ok db w (steps1 @ steps2) out"
proof -
  obtain err db' app' w' where out: "out = (err, db', app', w')" by (cases out) auto
  have se: "step_error w1 = step_error w" using assms(1,2) by (rule step_error_cong)
  from assms(5) out obtain evs where
    a: "db' = db" "get_fault w' = get_fault w1" "apply_fault w' = apply_fault w1"
    and b: "trace w' = trace w1 @ evs" "(map op_of evs, err) = fail_fast (step_error w1) steps2"
    by (auto simp: run_ok_def)
  have "fail_fast (step_error w) (steps1 @ steps2) = (map op_of (evs1 @ evs), err)"
    using fail_fast_append[of "step_error w" steps1 steps2] assms(4) b(2) se
    by (metis fst_conv map_append snd_conv)
  moreover have "trace w' = trace w @ (evs1 @ evs)" using b(1) assms(3) by simp
  ultimately show ?thesis using a assms(1,2) out unfolding run_ok_def
    by (metis (mono_tags, lifting) case_prod_conv)
qed

lemma client_Get_result:
  "client_Get k tbl w nn obj = ((r, ob), w1) \<Longrightarrow>
     w1 = w\<lparr>trace := trace w @ [EvGet k nn]\<rparr> \<and> snd (UpdateOrErr r) = step_error w (OpGet k)"
  by (auto simp: client_Get_def UpdateOrErr_def Let_def split: option.splits)

lemma Apply_Service_result:
  "Apply_Service u w s = (err, w1) \<Longrightarrow>
     err = apply_fault w Endpoint \<and> trace w1 = trace w @ [EvApply Endpoint (key_of (s_ObjectMeta s)) u] \<and>
     get_fault w1 = get_fault w \<and> apply_fault w1 = apply_fault w \<and>
     deployments w1 = deployments w \<and> pvcs w1 = pvcs w \<and>
     services w1 = (if err = None then (services w)(key_of (s_ObjectMeta s) \<mapsto> s) else services w)"
  by (auto simp: Apply_Service_def Let_def split: option.splits)

lemma Apply_PersistentVolumeClaim_result:
  "Apply_PersistentVolumeClaim u w s = (err, w1) \<Longrightarrow>
     err = apply_fault w Storage \<and> trace w1 = trace w @ [EvApply Storage (key_of (pvc_ObjectMeta s)) u] \<and>
     get_fault w1 = get_fault w \<and> apply_fault w1 = apply_fault w \<and>
     deployments w1 = deployments w \<and> services w1 = services w \<and>
     pvcs w1 = (if err = None then (pvcs w)(key_of (pvc_ObjectMeta s) \<mapsto> s) else pvcs w)"
  by (auto simp: Apply_PersistentVolumeClaim_def Let_def split: option.splits)

lemma Apply_Deployment_result:
  "Apply_Deployment u w s = (err, w1) \<Longrightarrow>
     err = apply_fault w Workload \<and> trace w1 = trace w @ [EvApply Workload (key_of (dd_ObjectMeta s)) u] \<and>
     get_fault w1 = get_fault w \<and> apply_fault w1 = apply_fault w \<and>
     services w1 = services w \<and> pvcs w1 = pvcs w \<and>
     deployments w1 = (if err = None then (deployments w)(key_of (dd_ObjectMeta s) \<mapsto> s) else deployments w)"
  by (auto simp: Apply_Deployment_def Let_def split: option.splits)

lemma storage_stage_run:
  "run_ok db w [OpGet Storage, OpApply Storage] (storage_stage db app nn w)"
  unfolding storage_stage_def run_ok_def
  by (auto split: prod.splits option.splits dest!: client_Get_result Apply_PersistentVolumeClaim_result)

lemma run_ok_step:
  assumes "get_fault w1 = get_fault w" "apply_fault w1 = apply_fault w"
    and "trace w1 = trace w @ [ev]"
    and "step_error w (op_of ev) = None"
    and "run_ok db w1 steps out"
  shows "run_ok db w (op_of ev # steps) out"
  using run_ok_compose[of w1 w "[ev]" "[op_of ev]" db steps out] assms by simp

lemma run_ok_stop:
  assumes "get_fault w1 = get_fault w" "apply_fault w1 = apply_fault w"
    and "trace w1 = trace w @ [ev]"
    and "step_error w (op_of ev) = Some e"
  shows "run_ok db w (op_of ev # steps) (Some e, db, app1, w1)"
  using assms by (simp add: run_ok_def)

lemma endpoint_stage_run:
  "run_ok db w [OpGet Endpoint, OpApply Endpoint, OpGet Storage, OpApply Storage]
     (endpoint_stage db app nn w)"
proof -
  obtain gerr s w1 where g: "client_Get Endpoint (services w) w nn zero_Service = ((gerr, s), w1)"
    by (metis surj_pair)
  note g1 = client_Get_result[OF g]
  obtain update err where u: "UpdateOrErr gerr = (update, err)" by (metis surj_pair)
  have w1: "get_fault w1 = get_fault w" "apply_fault w1 = apply_fault w"
    "trace w1 = trace w @ [EvGet Endpoint nn]" using g1 by simp_all
  have se: "step_error w (op_of (EvGet Endpoint nn)) = err" using g1 u by simp
  show ?thesis
  proof (cases err)
    case (Some e)
    then have "endpoint_stage db app nn w = (Some e, db, app, w1)"
      by (simp add: endpoint_stage_def g u)
    then show ?thesis using run_ok_stop[OF w1, of e db _ app] se Some by simp
  next
    case None
    obtain app1 s1 where m: "makeLocalService s nn app = (app1, s1)" by (metis surj_pair)
    obtain aerr w2 where a: "Apply_Service update w1 s1 = (aerr, w2)" by (metis surj_pair)
    note a1 = Apply_Service_result[OF a]
    have w2: "get_fault w2 = get_fault w1" "apply_fault w2 = apply_fault w1"
      "trace w2 = trace w1 @ [EvApply Endpoint (key_of (s_ObjectMeta s1)) update]"
      using a1 by simp_all
    have se2: "step_error w1 (op_of (EvApply Endpoint (key_of (s_ObjectMeta s1)) update)) = aerr"
      using a1 by simp
    have "run_ok db w1 [OpApply Endpoint, OpGet Storage, OpApply Storage] (endpoint_stage db app nn w)"
    proof (cases aerr)
      case (Some e)
      then have "endpoint_stage db app nn w = (Some e, db, app1, w2)"
        using None by (simp add: endpoint_stage_def g u m a)
      then show ?thesis using run_ok_stop[OF w2, of e db _ app1] se2 Some by simp
    next
      case None2: None
      then have "endpoint_stage db app nn w = storage_stage db app1 nn w2"
        using None by (simp add: endpoint_stage_def g u m a)
      then show ?thesis
        using run_ok_step[OF w2 _ storage_stage_run[of db w2 app1 nn]] se2 None2 by simp
    qed
    then show ?thesis using run_ok_step[OF w1, of db _ "endpoint_stage db app nn w"] se None by simp
  qed
qed

lemma rCharSet_length: "length rCharSet = 62"
  by (simp add: rCharSet_def)

lemma RandString_result:
  "RandString n w = (s, w1) \<Longrightarrow>
     length s = n \<and> set s \<subseteq> set rCharSet \<and> trace w1 = trace w @ [EvRand n] \<and>
     get_fault w1 = get_fault w \<and> apply_fault w1 = apply_fault w \<and>
     deployments w1 = deployments w \<and> services w1 = services w \<and> pvcs w1 = pvcs w"
  by (auto simp: RandString_def rCharSet_length intro!: nth_mem)

lemma workload_stage_run:
  "run_ok db w [OpRand 16, OpRand 16, OpRand 16, OpApply Workload,
                OpGet Endpoint, OpApply Endpoint, OpGet Storage, OpApply Storage]
     (workload_stage db app nn dd ex w)"
proof -
  obtain username w1 where r1: "RandString 16 w = (username, w1)" by (metis surj_pair)
  obtain password w2 where r2: "RandString 16 w1 = (password, w2)" by (metis surj_pair)
  obtain pgpass w3 where r3: "RandString 16 w2 = (pgpass, w3)" by (metis surj_pair)
  define cfg where "cfg = \<lparr>cfg_Hostname = nn_Name nn @ ''.'' @ nn_Namespace nn @ ''.svc'',
                      cfg_Port = 5432,
                      cfg_Username = username,
                      cfg_Password = password,
                      cfg_PgPass = pgpass,
                      cfg_Name = app_Spec_Database_Name app\<rparr>"
  obtain app1 dd1 where m: "makeLocalDB dd nn app cfg (Env_Spec_Database_Image db) = (app1, dd1)"
    by (metis surj_pair)
  obtain aerr w4 where a: "Apply_Deployment ex w3 dd1 = (aerr, w4)" by (metis surj_pair)
  note f1 = RandString_result[OF r1] and f2 = RandString_result[OF r2]
    and f3 = RandString_result[OF r3] and f4 = Apply_Deployment_result[OF a]
  have w1: "get_fault w1 = get_fault w" "apply_fault w1 = apply_fault w"
    "trace w1 = trace w @ [EvRand 16]" using f1 by simp_all
  have w2: "get_fault w2 = get_fault w1" "apply_fault w2 = apply_fault w1"
    "trace w2 = trace w1 @ [EvRand 16]" using f2 by simp_all
  have w3: "get_fault w3 = get_fault w2" "apply_fault w3 = apply_fault w2"
    "trace w3 = trace w2 @ [EvRand 16]" using f3 by simp_all
  have w4: "get_fault w4 = get_fault w3" "apply_fault w4 = apply_fault w3"
    "trace w4 = trace w3 @ [EvApply Workload (key_of (dd_ObjectMeta dd1)) ex]"
    using f4 by simp_all
  have se: "step_error w3 (op_of (EvApply Workload (key_of (dd_ObjectMeta dd1)) ex)) = aerr"
    using f4 by simp
  have "run_ok db w3 [OpApply Workload, OpGet Endpoint, OpApply Endpoint, OpGet Storage, OpApply Storage]
     (workload_stage db app nn dd ex w)"
  proof (cases aerr)
    case (Some e)
    then have "workload_stage db app nn dd ex w = (Some e, db, app1, w4)"
      using m by (simp add: workload_stage_def r1 r2 r3 a cfg_def)
    then show ?thesis using run_ok_stop[OF w4, of e db _ app1] se Some by simp
  next
    case None
    then have "workload_stage db app nn dd ex w = endpoint_stage db app1 nn w4"
      using m by (simp add: workload_stage_def r1 r2 r3 a cfg_def)
    then show ?thesis
      using run_ok_step[OF w4 _ endpoint_stage_run[of db w4 app1 nn]] se None by simp
  qed
  then have "run_ok db w2 [OpRand 16, OpApply Workload, OpGet Endpoint, OpApply Endpoint, OpGet Storage, OpApply Storage]
     (workload_stage db app nn dd ex w)"
    using run_ok_step[OF w3, of db _ "workload_stage db app nn dd ex w"] by simp
  then have "run_ok db w1 [OpRand 16, OpRand 16, OpApply Workload, OpGet Endpoint, OpApply Endpoint, OpGet Storage, OpApply Storage]
     (workload_stage db app nn dd ex w)"
    using run_ok_step[OF w2, of db _ "workload_stage db app nn dd ex w"] by simp
  then show ?thesis
    using run_ok_step[OF w1, of db _ "workload_stage db app nn dd ex w"] by simp
qed

lemma CreateDatabase_conflict:
  assumes "first_fetch w app = None"
  shows "CreateDatabase db app w =
           (Some (Errorf ''DB has already been created''), db, app,
            w\<lparr>trace := trace w @ [EvGet Workload (derive_nn app)]\<rparr>)"
  using assms unfolding CreateDatabase_stages first_fetch_def
  by (auto simp: client_Get_def UpdateOrErr_def Let_def split: option.splits)

lemma CreateDatabase_fetch_error:
  assumes "first_fetch w app = Some e" "\<not> IsNotFound e"
  shows "CreateDatabase db app w =
           (Some e, db, app, w\<lparr>trace := trace w @ [EvGet Workload (derive_nn app)]\<rparr>)"
  using assms unfolding CreateDatabase_stages first_fetch_def
  by (auto simp: client_Get_def UpdateOrErr_def Let_def split: option.splits)

lemma CreateDatabase_absent:
  assumes "reports_absent (first_fetch w app)"
  shows "CreateDatabase db app w =
           workload_stage db app (derive_nn app) zero_Deployment False
             (w\<lparr>trace := trace w @ [EvGet Workload (derive_nn app)]\<rparr>)"
  using assms unfolding CreateDatabase_stages first_fetch_def reports_absent_def
  by (auto simp: client_Get_def UpdateOrErr_def Let_def split: option.splits)

lemma CreateDatabase_absent_run:
  assumes "reports_absent (first_fetch w app)"
  shows "run_ok db w provisioning_steps (CreateDatabase db app w)"
proof -
  let ?w1 = "w\<lparr>trace := trace w @ [EvGet Workload (derive_nn app)]\<rparr>"
  have se: "step_error w (op_of (EvGet Workload (derive_nn app))) = None"
    using assms by (auto simp: first_fetch_def reports_absent_def client_Get_def Let_def split: option.splits)
  have "run_ok db w (op_of (EvGet Workload (derive_nn app)) #
          [OpRand 16, OpRand 16, OpRand 16, OpApply Workload,
                OpGet Endpoint, OpApply Endpoint, OpGet Storage, OpApply Storage])
          (workload_stage db app (derive_nn app) zero_Deployment False ?w1)"
    by (rule run_ok_step[OF _ _ _ se workload_stage_run]) simp_all
  then show ?thesis
    by (simp add: CreateDatabase_absent[OF assms] provisioning_steps_def)
qed

lemma rand_calls_ops: "rand_calls evs = rand_ops (map op_of evs)"
  by (induction evs rule: rand_calls.induct) simp_all

lemma applied_kinds_ops: "applied_kinds evs = applied_ops (map op_of evs)"
  by (induction evs rule: applied_kinds.induct) simp_all

lemma fetched_kinds_ops: "fetched_kinds evs = fetched_ops (map op_of evs)"
  by (induction evs rule: fetched_kinds.induct) simp_all

lemma new_events_append: "trace w' = trace w @ evs \<Longrightarrow> new_events w w' = evs"
  by (simp add: new_events_def)

lemma first_fetch_absent_step:
  "first_fetch w app \<noteq> None \<Longrightarrow>
     step_error w (OpGet Workload) =
       (if reports_absent (first_fetch w app) then None else first_fetch w app)"
  by (auto simp: first_fetch_def reports_absent_def client_Get_def Let_def split: option.splits)

lemma CreateDatabase_not_found_run:
  assumes "first_fetch w app \<noteq> None"
  shows "run_ok db w provisioning_steps (CreateDatabase db app w)"
proof (cases "reports_absent (first_fetch w app)")
  case True
  then show ?thesis by (rule CreateDatabase_absent_run)
next
  case False
  with assms obtain e where e: "first_fetch w app = Some e" "\<not> IsNotFound e"
    by (auto simp: reports_absent_def)
  have "step_error w (OpGet Workload) = Some e"
    using first_fetch_absent_step[OF assms] False e by simp
  then show ?thesis
    by (simp add: CreateDatabase_fetch_error[OF e] run_ok_def provisioning_steps_def)
qed

lemma rand_ops_provisioning:
  "f (OpGet Workload) = None \<Longrightarrow> (\<And>n. f (OpRand n) = None) \<Longrightarrow>
     rand_ops (fst (fail_fast f provisioning_steps)) = [16, 16, 16]"
  by (simp add: provisioning_steps_def split: option.splits)

lemma key_of_makeLocalDB:
  "key_of (dd_ObjectMeta (snd (makeLocalDB dd (derive_nn app) app cfg img))) = derive_nn app"
  by (simp add: makeLocalDB_def key_of_def SetObjectMeta_def labels_assign_def derive_nn_def Let_def)

lemma storage_stage_deployments:
  "deployments (snd (snd (snd (storage_stage db app nn w)))) = deployments w"
  unfolding storage_stage_def
  by (auto split: prod.splits dest!: client_Get_result Apply_PersistentVolumeClaim_result)

lemma endpoint_stage_deployments:
  "deployments (snd (snd (snd (endpoint_stage db app nn w)))) = deployments w"
  unfolding endpoint_stage_def
  by (auto simp: storage_stage_deployments split: prod.splits dest!: client_Get_result Apply_Service_result)

lemma endpoint_stage_apply_fails:
  assumes "step_error w (OpGet Endpoint) = None" "apply_fault w Endpoint = Some e"
  shows "pvcs (snd (snd (snd (endpoint_stage db app nn w)))) = pvcs w"
  using assms unfolding endpoint_stage_def
  by (auto split: prod.splits dest!: client_Get_result Apply_Service_result)

lemma workload_stage_applied:
  assumes "apply_fault w Workload = None"
  shows "\<exists>cfg. deployments (snd (snd (snd (workload_stage db app (derive_nn app) dd ex w)))) (derive_nn app) =
           Some (snd (makeLocalDB dd (derive_nn app) app cfg (Env_Spec_Database_Image db)))"
proof -
  obtain username w1 where r1: "RandString 16 w = (username, w1)" by (metis surj_pair)
  obtain password w2 where r2: "RandString 16 w1 = (password, w2)" by (metis surj_pair)
  obtain pgpass w3 where r3: "RandString 16 w2 = (pgpass, w3)" by (metis surj_pair)
  define nn where "nn = derive_nn app"
  define cfg where "cfg = \<lparr>cfg_Hostname = nn_Name nn @ ''.'' @ nn_Namespace nn @ ''.svc'',
                      cfg_Port = 5432,
                      cfg_Username = username,
                      cfg_Password = password,
                      cfg_PgPass = pgpass,
                      cfg_Name = app_Spec_Database_Name app\<rparr>"
  obtain app1 dd1 where m: "makeLocalDB dd nn app cfg (Env_Spec_Database_Image db) = (app1, dd1)"
    by (metis surj_pair)
  obtain aerr w4 where a: "Apply_Deployment ex w3 dd1 = (aerr, w4)" by (metis surj_pair)
  note f1 = RandString_result[OF r1] and f2 = RandString_result[OF r2]
    and f3 = RandString_result[OF r3] and f4 = Apply_Deployment_result[OF a]
  have k: "key_of (dd_ObjectMeta dd1) = nn"
    using key_of_makeLocalDB[of dd app cfg "Env_Spec_Database_Image db"] m by (simp add: nn_def)
  have "aerr = None" using f1 f2 f3 f4 assms by simp
  then have "workload_stage db app nn dd ex w = endpoint_stage db app1 nn w4"
    using m by (simp add: workload_stage_def r1 r2 r3 a cfg_def)
  moreover have "deployments w4 nn = Some dd1" using f4 k \<open>aerr = None\<close> by simp
  ultimately have "deployments (snd (snd (snd (workload_stage db app nn dd ex w)))) nn = Some dd1"
    by (simp add: endpoint_stage_deployments)
  then show ?thesis using m unfolding nn_def by (metis snd_conv)
qed

lemma workload_stage_pvcs:
  assumes "apply_fault w Workload = None" "step_error w (OpGet Endpoint) = None"
    "apply_fault w Endpoint = Some e"
  shows "pvcs (snd (snd (snd (workload_stage db app nn dd ex w)))) = pvcs w"
proof -
  obtain username w1 where r1: "RandString 16 w = (username, w1)" by (metis surj_pair)
  obtain password w2 where r2: "RandString 16 w1 = (password, w2)" by (metis surj_pair)
  obtain pgpass w3 where r3: "RandString 16 w2 = (pgpass, w3)" by (metis surj_pair)
  define cfg where "cfg = \<lparr>cfg_Hostname = nn_Name nn @ ''.'' @ nn_Namespace nn @ ''.svc'',
                      cfg_Port = 5432,
                      cfg_Username = username,
                      cfg_Password = password,
                      cfg_PgPass = pgpass,
                      cfg_Name = app_Spec_Database_Name app\<rparr>"
  obtain app1 dd1 where m: "makeLocalDB dd nn app cfg (Env_Spec_Database_Image db) = (app1, dd1)"
    by (metis surj_pair)
  obtain aerr w4 where a: "Apply_Deployment ex w3 dd1 = (aerr, w4)" by (metis surj_pair)
  note f1 = RandString_result[OF r1] and f2 = RandString_result[OF r2]
    and f3 = RandString_result[OF r3] and f4 = Apply_Deployment_result[OF a]
  have "aerr = None" using f1 f2 f3 f4 assms by simp
  then have "workload_stage db app nn dd ex w = endpoint_stage db app1 nn w4"
    using m by (simp add: workload_stage_def r1 r2 r3 a cfg_def)
  moreover have "step_error w4 = step_error w"
    using f1 f2 f3 f4 by (intro step_error_cong) simp_all
  moreover have "apply_fault w4 = apply_fault w" "pvcs w4 = pvcs w" using f1 f2 f3 f4 by simp_all
  ultimately show ?thesis
    using endpoint_stage_apply_fails[of w4 e db app1 nn] assms by simp
qed

lemma prefix_applied_ops:
  "prefix (applied_ops (fst (fail_fast f provisioning_steps))) [Workload, Endpoint, Storage]"
  by (simp add: provisioning_steps_def split: option.splits)

lemma prefix_fetched_ops:
  "prefix (fetched_ops (fst (fail_fast f provisioning_steps))) [Workload, Endpoint, Storage]"
  by (simp add: provisioning_steps_def split: option.splits)

lemma endpoint_failure_ops:
  assumes "f (OpGet Workload) = None" "\<And>n. f (OpRand n) = None" "f (OpApply Workload) = None"
    "f (OpGet Endpoint) = None" "f (OpApply Endpoint) = Some e"
  shows "fail_fast f provisioning_steps =
           ([OpGet Workload, OpRand 16, OpRand 16, OpRand 16, OpApply Workload,
             OpGet Endpoint, OpApply Endpoint], Some e)"
  using assms by (simp add: provisioning_steps_def)

text \<open>No path of \<^verbatim>\<open>CreateDatabase\<close> assigns a field of the provider.\<close>

lemma CreateDatabase_provider_unchanged: "fst (snd (CreateDatabase db app w)) = db"
proof (cases "first_fetch w app")
  case None
  then show ?thesis by (simp add: CreateDatabase_conflict)
next
  case (Some e)
  then have "run_ok db w provisioning_steps (CreateDatabase db app w)"
    by (intro CreateDatabase_not_found_run) simp
  then show ?thesis by (auto simp: run_ok_def)
qed

subsection \<open>The claims about a run\<close>

text \<open>
  Claim C1. A successful provisioning run should hand the generated connection config (16
  character username, password and auxiliary password, port 5432, hostname
  \<^verbatim>\<open><app-name>-db.<namespace>.svc\<close>, the declared database name) to \<^verbatim>\<open>Configure\<close>. On the
  scenario of the specification the run succeeds and the generated credentials reach the
  stored workload's environment, but the provider's \<^verbatim>\<open>Config\<close> is still \<^verbatim>\<open>nil\<close>:
  \<^verbatim>\<open>CreateDatabase\<close> keeps the config in a local variable and never assigns the field, so
  \<^verbatim>\<open>Configure\<close> writes \<^verbatim>\<open>nil\<close> into the application configuration.
\<close>

theorem CreateDatabase_drops_generated_config:
  "case CreateDatabase example_db example_app example_cluster of (err, db', app', w') \<Rightarrow>
     err = None \<and> Config db' = None \<and>
     ac_Database (Configure db' \<lparr>ac_Database = None\<rparr>) = None \<and>
     map_option (\<lambda>d. map c_Env (ps_Containers (pt_Spec (ds_Template (dd_Spec d)))))
       (deployments w' (derive_nn example_app)) =
     Some [[\<lparr>ev_Name = ''POSTGRESQL_USER'', ev_Value = ''abcdefghijklmnop''\<rparr>,
            \<lparr>ev_Name = ''POSTGRESQL_PASSWORD'', ev_Value = ''qrstuvwxyzABCDEF''\<rparr>,
            \<lparr>ev_Name = ''PGPASSWORD'', ev_Value = ''GHIJKLMNOPQRSTUV''\<rparr>,
            \<lparr>ev_Name = ''POSTGRESQL_DATABASE'', ev_Value = ''orders_db''\<rparr>]]"
  by (simp add: CreateDatabase_def example_db_def example_app_def example_cluster_def
      NewLocalDBProvider_def derive_nn_def client_Get_def UpdateOrErr_def RandString_def rCharSet_def upt_rec
      makeLocalDB_def makeLocalService_def makeLocalPVC_def labels_assign_def GetLabels_def SetObjectMeta_def
      Apply_Deployment_def Apply_Service_def Apply_PersistentVolumeClaim_def key_of_def Configure_def
      zero_Deployment_def zero_Service_def zero_PersistentVolumeClaim_def zero_ObjectMeta_def Int32_def Let_def)

text \<open>
  Claim C2. When the first fetch succeeds, that is, the workload already exists at the
  derived identity, \<^verbatim>\<open>CreateDatabase\<close> returns the error "DB has already been created";
  the run consists of that one fetch: nothing is applied, no credential is generated, the
  store, the random stream, the descriptor and the provider are as before.
\<close>

theorem CreateDatabase_already_created:
  assumes "first_fetch w app = None"
  shows "case CreateDatabase db app w of (err, db', app', w') \<Rightarrow>
           err = Some (Errorf ''DB has already been created'') \<and>
           new_events w w' = [EvGet Workload (derive_nn app)] \<and>
           applied_kinds (new_events w w') = [] \<and>
           rand_calls (new_events w w') = [] \<and>
           deployments w' = deployments w \<and> services w' = services w \<and> pvcs w' = pvcs w \<and>
           rand_pos w' = rand_pos w \<and> app' = app \<and> db' = db"
  by (simp add: CreateDatabase_conflict[OF assms] new_events_def)

text \<open>The scenario with the workload already stored satisfies the hypothesis of C2.\<close>

theorem CreateDatabase_already_created_witness:
  "first_fetch example_cluster_provisioned example_app = None \<and>
   fst (CreateDatabase example_db example_app example_cluster_provisioned) =
     Some (Errorf ''DB has already been created'') \<and>
   deployments (snd (snd (snd (CreateDatabase example_db example_app example_cluster_provisioned)))) =
     deployments example_cluster_provisioned"
proof -
  have h: "first_fetch example_cluster_provisioned example_app = None"
    by (simp add: first_fetch_def client_Get_def example_cluster_provisioned_def example_cluster_def Let_def)
  show ?thesis
    using h CreateDatabase_already_created[OF h, where db = example_db] by (simp add: case_prod_beta)
qed

text \<open>
  Claim C3. In every run the generator is called three times, each time for 16 characters,
  when the first fetch reports the workload absent, and not at all otherwise. If the first
  fetch fails with an error that is not a not-found error, the run returns that error, calls
  the generator never, applies nothing and leaves the store as it was.
\<close>

theorem CreateDatabase_credentials_iff_absent:
  "case CreateDatabase db app w of (err, db', app', w') \<Rightarrow>
     rand_calls (new_events w w') =
       (if reports_absent (first_fetch w app) then [16, 16, 16] else []) \<and>
     (\<forall>e. first_fetch w app = Some e \<and> \<not> IsNotFound e \<longrightarrow>
        err = Some e \<and> rand_calls (new_events w w') = [] \<and>
        applied_kinds (new_events w w') = [] \<and>
        deployments w' = deployments w \<and> services w' = services w \<and> pvcs w' = pvcs w)"
proof (cases "first_fetch w app")
  case None
  then show ?thesis
    using CreateDatabase_conflict[of w app db] by (simp add: new_events_def reports_absent_def)
next
  case (Some e)
  show ?thesis
  proof (cases "IsNotFound e")
    case False
    then show ?thesis
      using Some CreateDatabase_fetch_error[of w app e db]
      by (simp add: new_events_def reports_absent_def)
  next
    case True
    then have ab: "reports_absent (first_fetch w app)" using Some by (simp add: reports_absent_def)
    obtain err db' app' w' where out: "CreateDatabase db app w = (err, db', app', w')"
      by (metis surj_pair)
    from CreateDatabase_absent_run[OF ab, of db] out obtain evs where
      evs: "trace w' = trace w @ evs"
        "(map op_of evs, err) = fail_fast (step_error w) provisioning_steps"
      by (auto simp: run_ok_def)
    have se: "step_error w (OpGet Workload) = None"
      using first_fetch_absent_step[of w app] ab Some by simp
    have "map op_of evs = fst (fail_fast (step_error w) provisioning_steps)"
      using evs(2) by (metis fst_conv)
    then have "rand_calls evs = [16, 16, 16]"
      using rand_ops_provisioning[of "step_error w"] se by (simp add: rand_calls_ops)
    then show ?thesis
      using out ab Some True new_events_append[OF evs(1)] by simp
  qed
qed

text \<open>The scenario with a failing workload fetch, for the implication in C3.\<close>

theorem CreateDatabase_credentials_iff_absent_witness:
  "first_fetch example_cluster_unavailable example_app = Some (StoreError ''unavailable'') \<and>
   \<not> IsNotFound (StoreError ''unavailable'') \<and>
   fst (CreateDatabase example_db example_app example_cluster_unavailable) =
     Some (StoreError ''unavailable'') \<and>
   rand_calls (new_events example_cluster_unavailable
     (snd (snd (snd (CreateDatabase example_db example_app example_cluster_unavailable))))) = []"
proof -
  have h: "first_fetch example_cluster_unavailable example_app = Some (StoreError ''unavailable'')"
    by (simp add: first_fetch_def client_Get_def example_cluster_unavailable_def example_cluster_def Let_def)
  show ?thesis
    using h CreateDatabase_credentials_iff_absent[where db = example_db and app = example_app and w = example_cluster_unavailable]
    by (simp add: case_prod_beta reports_absent_def)
qed

text \<open>
  Claim C4. In every run the applied kinds and the fetched kinds are each a prefix of
  workload, endpoint, storage. Unless the workload was found, the operations of the run and
  its error are the fail-fast execution of the provisioning steps: the first failing fetch
  or apply ends the run with its error and nothing after it is attempted. In particular,
  when the workload apply succeeds and the endpoint apply fails with \<open>e\<close>, the run returns
  \<open>e\<close>, the built workload is in the store at the derived identity, and the storage claim
  is neither fetched nor applied.
\<close>

theorem CreateDatabase_fail_fast:
  "case CreateDatabase db app w of (err, db', app', w') \<Rightarrow>
     prefix (applied_kinds (new_events w w')) [Workload, Endpoint, Storage] \<and>
     prefix (fetched_kinds (new_events w w')) [Workload, Endpoint, Storage] \<and>
     (first_fetch w app \<noteq> None \<longrightarrow>
        (map op_of (new_events w w'), err) = fail_fast (step_error w) provisioning_steps) \<and>
     (\<forall>e. reports_absent (first_fetch w app) \<and> apply_fault w Workload = None \<and>
          step_error w (OpGet Endpoint) = None \<and> apply_fault w Endpoint = Some e \<longrightarrow>
          err = Some e \<and>
          (\<exists>cfg. deployments w' (derive_nn app) =
             Some (snd (makeLocalDB zero_Deployment (derive_nn app) app cfg
                     (Env_Spec_Database_Image db)))) \<and>
          Storage \<notin> set (fetched_kinds (new_events w w')) \<and>
          Storage \<notin> set (applied_kinds (new_events w w')) \<and>
          pvcs w' = pvcs w)"
proof (cases "first_fetch w app")
  case None
  then show ?thesis
    using CreateDatabase_conflict[of w app db] by (simp add: new_events_def reports_absent_def)
next
  case (Some e0)
  obtain err db' app' w' where out: "CreateDatabase db app w = (err, db', app', w')"
    by (metis surj_pair)
  have nf: "first_fetch w app \<noteq> None" using Some by simp
  from CreateDatabase_not_found_run[OF nf, of db] out obtain evs where
    evs: "trace w' = trace w @ evs"
      "(map op_of evs, err) = fail_fast (step_error w) provisioning_steps"
    by (auto simp: run_ok_def)
  have ne: "new_events w w' = evs" using evs(1) by (rule new_events_append)
  have ops: "map op_of evs = fst (fail_fast (step_error w) provisioning_steps)"
    and err: "err = snd (fail_fast (step_error w) provisioning_steps)"
    using evs(2) by (metis fst_conv, metis snd_conv)
  have p1: "prefix (applied_kinds evs) [Workload, Endpoint, Storage]"
    by (simp add: applied_kinds_ops ops prefix_applied_ops)
  have p2: "prefix (fetched_kinds evs) [Workload, Endpoint, Storage]"
    by (simp add: fetched_kinds_ops ops prefix_fetched_ops)
  have p4: "err = Some e \<and>
          (\<exists>cfg. deployments w' (derive_nn app) =
             Some (snd (makeLocalDB zero_Deployment (derive_nn app) app cfg
                     (Env_Spec_Database_Image db)))) \<and>
          Storage \<notin> set (fetched_kinds evs) \<and> Storage \<notin> set (applied_kinds evs) \<and>
          pvcs w' = pvcs w"
    if h: "reports_absent (first_fetch w app)" "apply_fault w Workload = None"
      "step_error w (OpGet Endpoint) = None" "apply_fault w Endpoint = Some e" for e
  proof -
    let ?w1 = "w\<lparr>trace := trace w @ [EvGet Workload (derive_nn app)]\<rparr>"
    have se: "step_error w (OpGet Workload) = None"
      using first_fetch_absent_step[OF nf] h(1) by simp
    have ff: "fail_fast (step_error w) provisioning_steps =
           ([OpGet Workload, OpRand 16, OpRand 16, OpRand 16, OpApply Workload,
             OpGet Endpoint, OpApply Endpoint], Some e)"
      using se h by (intro endpoint_failure_ops) simp_all
    have st: "CreateDatabase db app w =
           workload_stage db app (derive_nn app) zero_Deployment False ?w1"
      using h(1) by (rule CreateDatabase_absent)
    have "workload_stage db app (derive_nn app) zero_Deployment False ?w1 = (err, db', app', w')"
      using st out by simp
    then have w': "w' = snd (snd (snd (workload_stage db app (derive_nn app) zero_Deployment False ?w1)))"
      by simp
    have d: "\<exists>cfg. deployments w' (derive_nn app) =
             Some (snd (makeLocalDB zero_Deployment (derive_nn app) app cfg
                     (Env_Spec_Database_Image db)))"
      unfolding w' using h(2) by (intro workload_stage_applied) simp
    have se1: "step_error ?w1 = step_error w" by (intro step_error_cong) simp_all
    have p: "pvcs w' = pvcs w"
      unfolding w'
      using workload_stage_pvcs[of ?w1 e db app "derive_nn app" zero_Deployment False] h se1
      by simp
    show ?thesis
      using d p ff ops err by (simp add: applied_kinds_ops fetched_kinds_ops)
  qed
  have p3: "\<forall>e. reports_absent (first_fetch w app) \<and> apply_fault w Workload = None \<and>
          step_error w (OpGet Endpoint) = None \<and> apply_fault w Endpoint = Some e \<longrightarrow>
          err = Some e \<and>
          (\<exists>cfg. deployments w' (derive_nn app) =
             Some (snd (makeLocalDB zero_Deployment (derive_nn app) app cfg
                     (Env_Spec_Database_Image db)))) \<and>
          Storage \<notin> set (fetched_kinds evs) \<and> Storage \<notin> set (applied_kinds evs) \<and>
          pvcs w' = pvcs w"
    using p4 by blast
  show ?thesis
    unfolding out prod.case ne using p1 p2 evs(2) p3 by blast
qed

text \<open>The scenario with a failing endpoint apply, for the implications in C4.\<close>

theorem CreateDatabase_fail_fast_witness:
  "reports_absent (first_fetch example_cluster_endpoint_fault example_app) \<and>
   apply_fault example_cluster_endpoint_fault Workload = None \<and>
   step_error example_cluster_endpoint_fault (OpGet Endpoint) = None \<and>
   apply_fault example_cluster_endpoint_fault Endpoint = Some (StoreError ''apply failed'') \<and>
   fst (CreateDatabase example_db example_app example_cluster_endpoint_fault) =
     Some (StoreError ''apply failed'') \<and>
   applied_kinds (new_events example_cluster_endpoint_fault
     (snd (snd (snd (CreateDatabase example_db example_app example_cluster_endpoint_fault))))) =
     [Workload, Endpoint]"
proof -
  have h: "reports_absent (first_fetch example_cluster_endpoint_fault example_app)"
    "apply_fault example_cluster_endpoint_fault Workload = None"
    "step_error example_cluster_endpoint_fault (OpGet Endpoint) = None"
    "apply_fault example_cluster_endpoint_fault Endpoint = Some (StoreError ''apply failed'')"
    by (simp_all add: first_fetch_def reports_absent_def client_Get_def
        example_cluster_endpoint_fault_def example_cluster_def Let_def)
  have nf: "first_fetch example_cluster_endpoint_fault example_app \<noteq> None"
    using h(1) by (auto simp: reports_absent_def split: option.splits)
  have ff: "fail_fast (step_error example_cluster_endpoint_fault) provisioning_steps =
           ([OpGet Workload, OpRand 16, OpRand 16, OpRand 16, OpApply Workload,
             OpGet Endpoint, OpApply Endpoint], Some (StoreError ''apply failed''))"
    by (simp add: provisioning_steps_def example_cluster_endpoint_fault_def example_cluster_def)
  show ?thesis
    using h nf ff
      CreateDatabase_fail_fast[where db = example_db and app = example_app and w = example_cluster_endpoint_fault]
    by (simp add: case_prod_beta applied_kinds_ops)
qed

section \<open>The builders\<close>

lemmas builder_defs = makeLocalDB_def makeLocalService_def makeLocalPVC_def labels_assign_def
  GetLabels_def SetObjectMeta_def Int32_def Let_def

text \<open>
  Claim C5 says that each builder leaves the descriptor's own label map unchanged. With the
  label map handed out by reference, the claim fails on the scenario's descriptor, whose labels
  are \<^verbatim>\<open>app=orders\<close>: after each builder the map also holds \<^verbatim>\<open>service=db\<close>.
\<close>

theorem builders_keep_owner_labels_counterexample:
  "\<not> (app_Labels (fst (makeLocalDB zero_Deployment (derive_nn example_app) example_app
            example_cfg ''postgres:13'')) = app_Labels example_app \<and>
      app_Labels (fst (makeLocalService zero_Service (derive_nn example_app) example_app)) =
        app_Labels example_app \<and>
      app_Labels (fst (makeLocalPVC zero_PersistentVolumeClaim (derive_nn example_app) example_app)) =
        app_Labels example_app)"
  by (simp add: builder_defs example_app_def fun_upd_idem_iff)

text \<open>
  Claim C5, amended. Each of the three builders writes \<^verbatim>\<open>service=db\<close> into the descriptor's
  own label map and changes nothing else of the descriptor: after the call the descriptor's
  labels are its previous labels plus \<^verbatim>\<open>service=db\<close>.
\<close>

theorem builders_write_owner_labels:
  "fst (makeLocalDB dd nn pp cfg img) = pp\<lparr>app_Labels := (app_Labels pp)(''service'' \<mapsto> ''db'')\<rparr> \<and>
   fst (makeLocalService s nn pp) = pp\<lparr>app_Labels := (app_Labels pp)(''service'' \<mapsto> ''db'')\<rparr> \<and>
   fst (makeLocalPVC pvc nn pp) = pp\<lparr>app_Labels := (app_Labels pp)(''service'' \<mapsto> ''db'')\<rparr>"
  by (simp add: builder_defs)

text \<open>
  Claim C6. The derived identity is the application's name followed by \<^verbatim>\<open>-db\<close>, in the
  application's namespace, and two descriptors derive the same identity exactly when they
  agree on name and namespace.
\<close>

theorem derive_nn_injective:
  "nn_Name (derive_nn a) = app_Name a @ ''-db'' \<and>
   nn_Namespace (derive_nn a) = app_Namespace a \<and>
   (derive_nn a = derive_nn b \<longleftrightarrow> app_Name a = app_Name b \<and> app_Namespace a = app_Namespace b)"
  by (simp add: derive_nn_def)

text \<open>
  Claim C7. The workload builder gives the same result when it is called again, on the same
  target or on the target it has already filled, with the descriptor as the first call left
  it. The deployment has one replica; selector and template labels are the owner's labels
  plus \<^verbatim>\<open>service=db\<close>; there is exactly one container, with the supplied image, the four
  environment variables from the config and the declared database name, one port 5432 named
  \<^verbatim>\<open>database\<close>, a liveness probe (15s delay, 2s timeout) and a readiness probe (45s delay,
  2s timeout) that both run \<^verbatim>\<open>SELECT 1\<close> through \<^verbatim>\<open>psql\<close>, and the volume mounted at
  \<^verbatim>\<open>/var/lib/pgsql/data\<close>.
\<close>

theorem makeLocalDB_deployment:
  "makeLocalDB dd nn (fst (makeLocalDB dd nn pp cfg img)) cfg img = makeLocalDB dd nn pp cfg img \<and>
   makeLocalDB (snd (makeLocalDB dd nn pp cfg img)) nn (fst (makeLocalDB dd nn pp cfg img)) cfg img =
     makeLocalDB dd nn pp cfg img \<and>
   ds_Replicas (dd_Spec (snd (makeLocalDB dd nn pp cfg img))) = Some 1 \<and>
   ds_Selector (dd_Spec (snd (makeLocalDB dd nn pp cfg img))) =
     Some \<lparr>ls_MatchLabels = (app_Labels pp)(''service'' \<mapsto> ''db'')\<rparr> \<and>
   om_Labels (pt_ObjectMeta (ds_Template (dd_Spec (snd (makeLocalDB dd nn pp cfg img))))) =
     (app_Labels pp)(''service'' \<mapsto> ''db'') \<and>
   ps_Containers (pt_Spec (ds_Template (dd_Spec (snd (makeLocalDB dd nn pp cfg img))))) =
     [\<lparr>c_Name = nn_Name nn, c_Image = img,
       c_Env = [\<lparr>ev_Name = ''POSTGRESQL_USER'', ev_Value = cfg_Username cfg\<rparr>,
                \<lparr>ev_Name = ''POSTGRESQL_PASSWORD'', ev_Value = cfg_Password cfg\<rparr>,
                \<lparr>ev_Name = ''PGPASSWORD'', ev_Value = cfg_PgPass cfg\<rparr>,
                \<lparr>ev_Name = ''POSTGRESQL_DATABASE'', ev_Value = app_Spec_Database_Name pp\<rparr>],
       c_LivenessProbe = Some \<lparr>pr_Handler = \<lparr>h_Exec = Some \<lparr>ea_Command =
           [''psql'', ''-U'', ''$(POSTGRESQL_USER)'', ''-d'', ''$(POSTGRESQL_DATABASE)'',
            ''-c'', ''SELECT 1'']\<rparr>\<rparr>,
         pr_InitialDelaySeconds = 15, pr_TimeoutSeconds = 2\<rparr>,
       c_ReadinessProbe = Some \<lparr>pr_Handler = \<lparr>h_Exec = Some \<lparr>ea_Command =
           [''psql'', ''-U'', ''$(POSTGRESQL_USER)'', ''-d'', ''$(POSTGRESQL_DATABASE)'',
            ''-c'', ''SELECT 1'']\<rparr>\<rparr>,
         pr_InitialDelaySeconds = 45, pr_TimeoutSeconds = 2\<rparr>,
       c_Ports = [\<lparr>cp_Name = ''database'', cp_ContainerPort = 5432\<rparr>],
       c_VolumeMounts = [\<lparr>vm_Name = nn_Name nn, vm_MountPath = ''/var/lib/pgsql/data''\<rparr>]\<rparr>]"
  by (simp add: builder_defs)

text \<open>
  Claim C8. The endpoint builder produces exactly one port, named \<^verbatim>\<open>database\<close>, 5432, TCP,
  and a selector equal to the owner's labels plus \<^verbatim>\<open>service=db\<close>.
\<close>

theorem makeLocalService_port_selector:
  "ss_Ports (s_Spec (snd (makeLocalService s nn pp))) =
     [\<lparr>sp_Name = ''database'', sp_Port = 5432, sp_Protocol = ''TCP''\<rparr>] \<and>
   ss_Selector (s_Spec (snd (makeLocalService s nn pp))) = (app_Labels pp)(''service'' \<mapsto> ''db'')"
  by (simp add: builder_defs)

text \<open>
  Claim C9. The storage builder sets the access modes to exactly \<^verbatim>\<open>ReadWriteOnce\<close> and the
  requests to exactly \<^verbatim>\<open>storage: 1Gi\<close>, whatever the target, the identity and the descriptor.
\<close>

theorem makeLocalPVC_fixed_request:
  "pcs_AccessModes (pvc_Spec (snd (makeLocalPVC pvc nn pp))) = [ReadWriteOnce] \<and>
   rr_Requests (pcs_Resources (pvc_Spec (snd (makeLocalPVC pvc nn pp)))) =
     [ResourceStorage \<mapsto> MustParse ''1Gi''] \<and>
   pcs_AccessModes (pvc_Spec (snd (makeLocalPVC pvc nn pp))) =
     pcs_AccessModes (pvc_Spec (snd (makeLocalPVC pvc' nn' pp'))) \<and>
   pcs_Resources (pvc_Spec (snd (makeLocalPVC pvc nn pp))) =
     pcs_Resources (pvc_Spec (snd (makeLocalPVC pvc' nn' pp')))"
  by (simp add: builder_defs)

text \<open>
  Claim C10. In the built workload the one volume, its claim name, the container and the
  container's one volume mount all carry the identity's name, which is also the name stamped
  on the claim that the storage builder fills, and which is \<^verbatim>\<open><app-name>-db\<close> for the derived
  identity.
\<close>

theorem makeLocalDB_wired_by_name:
  "ps_Volumes (pt_Spec (ds_Template (dd_Spec (snd (makeLocalDB dd nn pp cfg img))))) =
     [\<lparr>vol_Name = nn_Name nn,
       vol_VolumeSource = \<lparr>vs_PersistentVolumeClaim = Some \<lparr>pvs_ClaimName = nn_Name nn\<rparr>\<rparr>\<rparr>] \<and>
   map c_Name (ps_Containers (pt_Spec (ds_Template (dd_Spec (snd (makeLocalDB dd nn pp cfg img)))))) =
     [nn_Name nn] \<and>
   map (map vm_Name \<circ> c_VolumeMounts)
     (ps_Containers (pt_Spec (ds_Template (dd_Spec (snd (makeLocalDB dd nn pp cfg img)))))) =
     [[nn_Name nn]] \<and>
   om_Name (pvc_ObjectMeta (snd (makeLocalPVC pvc nn pp'))) = nn_Name nn \<and>
   nn_Name (derive_nn app) = app_Name app @ ''-db''"
  by (simp add: builder_defs derive_nn_def)

end
